theory Spec2Isabelle
  imports Main
begin

section \<open>The live-file comparison hook of \<^verbatim>\<open>useLiveFileComparison.tsx\<close>\<close>

text \<open>
  The hook keeps two pieces of React state (the diff summary and the status line), reads
  the live-file session through \<^verbatim>\<open>useLiveFile\<close>, and reacts to changes in two
  effects. Its callbacks set the status and call out to the session store. The model
  passes the state explicitly and returns, next to the new state, the list of calls a
  function made, in the order it made them.
\<close>

subsection \<open>Data\<close>

record DiffSummary =
  insertions :: nat
  deletions :: nat

datatype mtype = Info | Changes | Success | Error

record FileOperationStatus =
  message :: string
  mtype :: mtype

type_synonym LiveFileId = string

text \<open>
  One element of the edit script of \<^verbatim>\<open>@sanity/diff-match-patch\<close>: the operation
  (\<open>1\<close> insert, \<open>-1\<close> delete, \<open>0\<close> equal) and the text it covers.
  A text is a list of characters, one for each code unit that \<^verbatim>\<open>text.length\<close> counts.
\<close>

type_synonym diff = "int \<times> string"

record diff_options =
  timeout :: nat
  checkLines :: bool

text \<open>
  The diff library is not part of the repository. The two functions the hook imports from
  it are parameters of the model.
\<close>

record diff_lib =
  makeDiff :: "string \<Rightarrow> string \<Rightarrow> diff_options \<Rightarrow> diff list"
  cleanupEfficiency :: "diff list \<Rightarrow> nat \<Rightarrow> diff list"

text \<open>
  The session record that \<^verbatim>\<open>useLiveFile\<close> hands out (\<^verbatim>\<open>fileData\<close>), and the
  inputs of one render of the hook.
\<close>

record LiveFileData =
  content :: "string option"
  error :: "string option"
  isLoading :: bool
  isSaving :: bool

record hook_props =
  isMobile :: bool
  bufferText :: "string option"
  fileData :: "LiveFileData option"
  isPairingValid :: bool

record hook_state =
  diffSummary :: "DiffSummary option"
  status :: "FileOperationStatus option"

text \<open>
  A value that JavaScript code can throw, as far as the \<^verbatim>\<open>catch\<close> block of the pairing
  handler looks at it. \<open>JSObject m s\<close> is an object whose \<^verbatim>\<open>message\<close> property reads
  as \<open>m\<close> (\<open>JSUndefined\<close> when it has none) and whose string conversion is \<open>s\<close>; an
  \<^verbatim>\<open>Error\<close> with message \<^verbatim>\<open>boom\<close> is \<open>JSObject (JSString ''boom'') ''Error: boom''\<close>.
  Numbers are the integers and \<^verbatim>\<open>NaN\<close>.
\<close>

datatype js_value =
    JSUndefined
  | JSNull
  | JSBoolean bool
  | JSNumber int
  | JSNaN
  | JSString string
  | JSObject js_value string

text \<open>The calls that the model records.\<close>

datatype event =
    Call_makeDiff string string diff_options
  | Call_cleanupEfficiency "diff list" nat
  | Call_calculateDiffStats string string
  | Call_liveFileCreateOrThrow
  | Call_replaceLiveFileId LiveFileId
  | Call_reloadFileContent "LiveFileId option"

subsection \<open>Numbers and thrown values as text\<close>

definition digit_char :: "nat \<Rightarrow> char" where
  "digit_char d = ''0123456789'' ! d"

text \<open>
  The decimal text of a count, as a template literal prints it. The counts are sums of
  string lengths, below the range where JavaScript switches to exponent notation.
\<close>

function string_of_nat :: "nat \<Rightarrow> string" where
  "string_of_nat n =
     (if n < 10 then [digit_char n] else string_of_nat (n div 10) @ [digit_char (n mod 10)])"
  by pat_completeness auto
termination
  by (relation "measure id") auto

declare string_of_nat.simps [simp del]

definition string_of_int :: "int \<Rightarrow> string" where
  "string_of_int i = (if i < 0 then CHR ''-'' # string_of_nat (nat (- i)) else string_of_nat (nat i))"

fun js_truthy :: "js_value \<Rightarrow> bool" where
  "js_truthy JSUndefined = False"
| "js_truthy JSNull = False"
| "js_truthy (JSBoolean b) = b"
| "js_truthy (JSNumber n) = (n \<noteq> 0)"
| "js_truthy JSNaN = False"
| "js_truthy (JSString s) = (s \<noteq> [])"
| "js_truthy (JSObject m s) = True"

fun js_typeof :: "js_value \<Rightarrow> string" where
  "js_typeof JSUndefined = ''undefined''"
| "js_typeof JSNull = ''object''"
| "js_typeof (JSBoolean b) = ''boolean''"
| "js_typeof (JSNumber n) = ''number''"
| "js_typeof JSNaN = ''number''"
| "js_typeof (JSString s) = ''string''"
| "js_typeof (JSObject m s) = ''object''"

text \<open>\<^verbatim>\<open>error?.message\<close>: undefined on undefined, null and the primitives.\<close>

fun js_message :: "js_value \<Rightarrow> js_value" where
  "js_message (JSObject m s) = m"
| "js_message v = JSUndefined"

fun js_to_string :: "js_value \<Rightarrow> string" where
  "js_to_string JSUndefined = ''undefined''"
| "js_to_string JSNull = ''null''"
| "js_to_string (JSBoolean b) = (if b then ''true'' else ''false'')"
| "js_to_string (JSNumber n) = string_of_int n"
| "js_to_string JSNaN = ''NaN''"
| "js_to_string (JSString s) = s"
| "js_to_string (JSObject m s) = s"

subsection \<open>The diff summarizer\<close>

text \<open>The callback of \<^verbatim>\<open>diffs.reduce\<close>.\<close>

definition count_diff :: "DiffSummary \<Rightarrow> diff \<Rightarrow> DiffSummary" where
  "count_diff acc d =
     (case d of (operation, text) \<Rightarrow>
        if operation = 1 then acc\<lparr>insertions := insertions acc + length text\<rparr>
        else if operation = - 1 then acc\<lparr>deletions := deletions acc + length text\<rparr>
        else acc)"

definition calculateDiffStats :: "diff_lib \<Rightarrow> string \<Rightarrow> string \<Rightarrow> DiffSummary \<times> event list" where
  "calculateDiffStats lib fromText toText =
     (let opts = \<lparr>timeout = 1, checkLines = True\<rparr>;
          raw = makeDiff lib fromText toText opts;
          diffs = cleanupEfficiency lib raw 4
      in (foldl count_diff \<lparr>insertions = 0, deletions = 0\<rparr> diffs,
          [Call_makeDiff fromText toText opts, Call_cleanupEfficiency raw 4]))"

subsection \<open>Derived state of one render\<close>

definition fileContent :: "hook_props \<Rightarrow> string option" where
  "fileContent p = (case fileData p of None \<Rightarrow> None | Some d \<Rightarrow> content d)"

definition fileErrorText :: "hook_props \<Rightarrow> string option" where
  "fileErrorText p = (case fileData p of None \<Rightarrow> None | Some d \<Rightarrow> error d)"

definition isLoadingFile :: "hook_props \<Rightarrow> bool" where
  "isLoadingFile p = (case fileData p of None \<Rightarrow> False | Some d \<Rightarrow> isLoading d)"

definition fileHasContent :: "hook_props \<Rightarrow> bool" where
  "fileHasContent p = (fileContent p \<noteq> None)"

definition shallUpdateOnRefocus :: "hook_props \<Rightarrow> bool" where
  "shallUpdateOnRefocus p = (isPairingValid p \<and> fileHasContent p)"

subsection \<open>The two effects\<close>

text \<open>The effect that recomputes the diff (dependencies: buffer text, file content, \<^verbatim>\<open>isMobile\<close>).\<close>

definition diffEffect :: "diff_lib \<Rightarrow> hook_props \<Rightarrow> hook_state \<Rightarrow> hook_state \<times> event list" where
  "diffEffect lib p st =
     (case (fileContent p, bufferText p) of
        (Some fc, Some bt) \<Rightarrow>
          if fc = bt then
            (st\<lparr>diffSummary := Some \<lparr>insertions = 0, deletions = 0\<rparr>,
                status := Some \<lparr>message = (if isMobile p then ''Identical to File.''
                                            else ''The File is identical to this Document.''),
                                 mtype = Info\<rparr>\<rparr>,
             [])
          else
            (case calculateDiffStats lib fc bt of (summary, evs) \<Rightarrow>
               (st\<lparr>diffSummary := Some summary,
                   status := Some
                     (if insertions summary \<noteq> 0 \<and> deletions summary \<noteq> 0 then
                        \<lparr>message = ''Document has '' @ string_of_nat (insertions summary)
                                     @ '' insertions and '' @ string_of_nat (deletions summary)
                                     @ '' deletions.'',
                         mtype = Changes\<rparr>
                      else if insertions summary \<noteq> 0 then
                        \<lparr>message = ''Document has '' @ string_of_nat (insertions summary)
                                     @ '' insertions.'',
                         mtype = Changes\<rparr>
                      else if deletions summary \<noteq> 0 then
                        \<lparr>message = ''Document has '' @ string_of_nat (deletions summary)
                                     @ '' deletions.'',
                         mtype = Changes\<rparr>
                      else \<lparr>message = ''No changes.'', mtype = Info\<rparr>)\<rparr>,
                Call_calculateDiffStats fc bt # evs))
      | _ \<Rightarrow> (st\<lparr>diffSummary := None\<rparr>, []))"

text \<open>The effect that shows the session's error (dependency: the error text).\<close>

definition errorEffect :: "hook_props \<Rightarrow> hook_state \<Rightarrow> hook_state" where
  "errorEffect p st =
     (case fileErrorText p of
        Some e \<Rightarrow> if e \<noteq> [] then st\<lparr>status := Some \<lparr>message = e, mtype = Error\<rparr>\<rparr> else st
      | None \<Rightarrow> st)"

text \<open>
  What React does after a render: an effect runs on mount (no previous render) and when one
  of its dependencies differs from the previous render's, and the effects of a component
  run in the order the component declares them.
\<close>

definition diffDeps :: "hook_props \<Rightarrow> string option \<times> string option \<times> bool" where
  "diffDeps p = (bufferText p, fileContent p, isMobile p)"

definition commitEffects ::
  "diff_lib \<Rightarrow> hook_props option \<Rightarrow> hook_props \<Rightarrow> hook_state \<Rightarrow> hook_state \<times> event list" where
  "commitEffects lib prev p st =
     (let runDiff = (case prev of None \<Rightarrow> True | Some q \<Rightarrow> diffDeps q \<noteq> diffDeps p);
          runError = (case prev of None \<Rightarrow> True | Some q \<Rightarrow> fileErrorText q \<noteq> fileErrorText p)
      in case (if runDiff then diffEffect lib p st else (st, [])) of
           (st1, evs) \<Rightarrow> (if runError then errorEffect p st1 else st1, evs))"

subsection \<open>Callbacks\<close>

text \<open>
  \<^verbatim>\<open>_handleReloadFileContent\<close>: two status updates, each under its own test, then the
  call of \<^verbatim>\<open>reloadFileContent\<close>.
\<close>

definition handleReloadFileContent ::
  "hook_props \<Rightarrow> LiveFileId option \<Rightarrow> hook_state \<Rightarrow> hook_state \<times> event list" where
  "handleReloadFileContent p liveFileId st =
     (let st1 = (if isLoadingFile p
                 then st\<lparr>status := Some \<lparr>message = ''Already Loading file...'', mtype = Info\<rparr>\<rparr>
                 else st);
          st2 = (if \<not> fileHasContent p
                 then st1\<lparr>status := Some \<lparr>message = ''Reading file...'', mtype = Info\<rparr>\<rparr>
                 else st1)
      in (st2, [Call_reloadFileContent liveFileId]))"

text \<open>
  The value that the template literal of the \<^verbatim>\<open>catch\<close> block interpolates. The
  conditional operator binds weaker than \<^verbatim>\<open>||\<close>, so the test is the whole disjunction.
\<close>

definition pairingErrorDetail :: "js_value \<Rightarrow> js_value" where
  "pairingErrorDetail e =
     (if js_truthy (js_message e) \<or> js_typeof e = ''string'' then e
      else JSString ''Unknown error'')"

definition pairingErrorStatus :: "js_value \<Rightarrow> FileOperationStatus" where
  "pairingErrorStatus e =
     \<lparr>message = ''Error pairing the file: '' @ js_to_string (pairingErrorDetail e), mtype = Error\<rparr>"

text \<open>
  How the three awaited steps of \<^verbatim>\<open>handlePairNewFSFHandle\<close> end: the store, the
  caller's \<^verbatim>\<open>replaceLiveFileId\<close> and the reload are outside the hook, so what each of them
  does (return, or throw a value) is an input.
\<close>

datatype pairing_outcome =
    CreateThrows js_value
  | ReplaceThrows LiveFileId js_value
  | ReloadThrows LiveFileId js_value
  | PairingDone LiveFileId

fun handlePairNewFSFHandle ::
  "hook_props \<Rightarrow> pairing_outcome \<Rightarrow> hook_state \<Rightarrow> hook_state \<times> event list" where
  "handlePairNewFSFHandle p (CreateThrows e) st =
     (st\<lparr>status := Some (pairingErrorStatus e)\<rparr>, [Call_liveFileCreateOrThrow])"
| "handlePairNewFSFHandle p (ReplaceThrows liveFileId e) st =
     (st\<lparr>status := Some (pairingErrorStatus e)\<rparr>,
      [Call_liveFileCreateOrThrow, Call_replaceLiveFileId liveFileId])"
| "handlePairNewFSFHandle p (ReloadThrows liveFileId e) st =
     (case handleReloadFileContent p (Some liveFileId) st of
        (st1, evs) \<Rightarrow>
          (st1\<lparr>status := Some (pairingErrorStatus e)\<rparr>,
           [Call_liveFileCreateOrThrow, Call_replaceLiveFileId liveFileId] @ evs))"
| "handlePairNewFSFHandle p (PairingDone liveFileId) st =
     (case handleReloadFileContent p (Some liveFileId) st of
        (st1, evs) \<Rightarrow>
          (st1, [Call_liveFileCreateOrThrow, Call_replaceLiveFileId liveFileId] @ evs))"

text \<open>The callback that the hook subscribes to the window focus observer.\<close>

definition focusCallback :: "hook_props \<Rightarrow> bool \<Rightarrow> hook_state \<Rightarrow> hook_state \<times> event list" where
  "focusCallback p focused st =
     (if focused \<and> shallUpdateOnRefocus p then handleReloadFileContent p None st else (st, []))"

subsection \<open>Edit scripts\<close>

text \<open>
  What the hook may expect of the library: an edit script from \<open>a\<close> to \<open>b\<close> uses the three
  operations only, its equal and deleted texts make up \<open>a\<close>, and its equal and inserted
  texts make up \<open>b\<close>. A shortest script changes as few characters as any script can.
\<close>

definition script_source :: "diff list \<Rightarrow> string" where
  "script_source ds = concat (map snd (filter (\<lambda>d. fst d \<noteq> 1) ds))"

definition script_target :: "diff list \<Rightarrow> string" where
  "script_target ds = concat (map snd (filter (\<lambda>d. fst d \<noteq> - 1) ds))"

definition script_summary :: "diff list \<Rightarrow> DiffSummary" where
  "script_summary ds = foldl count_diff \<lparr>insertions = 0, deletions = 0\<rparr> ds"

definition script_cost :: "diff list \<Rightarrow> nat" where
  "script_cost ds = insertions (script_summary ds) + deletions (script_summary ds)"

definition valid_script :: "diff list \<Rightarrow> string \<Rightarrow> string \<Rightarrow> bool" where
  "valid_script ds a b =
     (list_all (\<lambda>d. fst d = 1 \<or> fst d = 0 \<or> fst d = - 1) ds
      \<and> script_source ds = a \<and> script_target ds = b)"

definition shortest_script :: "diff list \<Rightarrow> string \<Rightarrow> string \<Rightarrow> bool" where
  "shortest_script ds a b =
     (valid_script ds a b \<and> (\<forall>ds'. valid_script ds' a b \<longrightarrow> script_cost ds \<le> script_cost ds'))"

text \<open>
  A small diff library to run the model on: it keeps the common prefix of the two texts,
  deletes the rest of the first and inserts the rest of the second, and its clean-up
  leaves a script as it is.
\<close>

fun common_prefix :: "string \<Rightarrow> string \<Rightarrow> string" where
  "common_prefix (x # xs) (y # ys) = (if x = y then x # common_prefix xs ys else [])"
| "common_prefix xs ys = []"

definition prefix_makeDiff :: "string \<Rightarrow> string \<Rightarrow> diff_options \<Rightarrow> diff list" where
  "prefix_makeDiff a b opts =
     (let pre = common_prefix a b;
          ra = drop (length pre) a;
          rb = drop (length pre) b
      in (if pre = [] then [] else [(0, pre)])
         @ (if ra = [] then [] else [(- 1, ra)])
         @ (if rb = [] then [] else [(1, rb)]))"

definition prefix_lib :: diff_lib where
  "prefix_lib = \<lparr>makeDiff = prefix_makeDiff, cleanupEfficiency = (\<lambda>ds editCost. ds)\<rparr>"

text \<open>
  A diff library for the two texts \<open>abbb\<close> and \<open>ba\<close>. Its answers there are the
  cleaned-up scripts of \<^verbatim>\<open>diff-match-patch\<close> at edit cost 4: from \<open>abbb\<close> to \<open>ba\<close>
  the clean-up dissolves the one-character equality, so the script deletes all of the first
  text and inserts all of the second; from \<open>ba\<close> to \<open>abbb\<close> the script keeps the \<open>a\<close>.
  On other texts it answers as the prefix library.
\<close>

definition swap_makeDiff :: "string \<Rightarrow> string \<Rightarrow> diff_options \<Rightarrow> diff list" where
  "swap_makeDiff a b opts =
     (if a = ''abbb'' \<and> b = ''ba'' then [(- 1, ''abbb''), (1, ''ba'')]
      else if a = ''ba'' \<and> b = ''abbb'' then [(- 1, ''b''), (0, ''a''), (1, ''bbb'')]
      else prefix_makeDiff a b opts)"

definition swap_lib :: diff_lib where
  "swap_lib = \<lparr>makeDiff = swap_makeDiff, cleanupEfficiency = (\<lambda>ds editCost. ds)\<rparr>"

text \<open>The script read backwards: insertions become deletions and deletions insertions.\<close>

definition invert_script :: "diff list \<Rightarrow> diff list" where
  "invert_script ds = map (\<lambda>d. (- fst d, snd d)) ds"

text \<open>Renders and states used as concrete inputs.\<close>

definition session :: "string option \<Rightarrow> string option \<Rightarrow> bool \<Rightarrow> LiveFileData" where
  "session c e l = \<lparr>content = c, error = e, isLoading = l, isSaving = False\<rparr>"

definition render :: "string option \<Rightarrow> LiveFileData option \<Rightarrow> bool \<Rightarrow> hook_props" where
  "render bt fd valid = \<lparr>isMobile = False, bufferText = bt, fileData = fd, isPairingValid = valid\<rparr>"

definition initial_state :: hook_state where
  "initial_state = \<lparr>diffSummary = None, status = None\<rparr>"

text \<open>The value that a pairing attempt threw, if it threw.\<close>

definition thrown_value :: "pairing_outcome \<Rightarrow> js_value option" where
  "thrown_value oc =
     (case oc of
        CreateThrows e \<Rightarrow> Some e
      | ReplaceThrows i e \<Rightarrow> Some e
      | ReloadThrows i e \<Rightarrow> Some e
      | PairingDone i \<Rightarrow> None)"

section \<open>Properties\<close>

subsection \<open>Counting over an edit script\<close>

lemma count_diff_insertions:
  "insertions (foldl count_diff acc ds) =
     insertions acc + sum_list (map (\<lambda>d. length (snd d)) (filter (\<lambda>d. fst d = 1) ds))"
  by (induction ds arbitrary: acc) (auto simp: count_diff_def split: prod.splits)

lemma count_diff_deletions:
  "deletions (foldl count_diff acc ds) =
     deletions acc + sum_list (map (\<lambda>d. length (snd d)) (filter (\<lambda>d. fst d = - 1) ds))"
  by (induction ds arbitrary: acc) (auto simp: count_diff_def split: prod.splits)

text \<open>Every script balances: what it inserts minus what it deletes is the difference in length.\<close>

lemma script_balance:
  "list_all (\<lambda>d. fst d = 1 \<or> fst d = 0 \<or> fst d = - 1) ds \<Longrightarrow>
   insertions (script_summary ds) + length (script_source ds)
     = deletions (script_summary ds) + length (script_target ds)"
  unfolding script_summary_def script_source_def script_target_def
            count_diff_insertions count_diff_deletions
  by (induction ds) (auto simp: length_concat)

lemma valid_script_balance:
  "valid_script ds a b \<Longrightarrow>
   insertions (script_summary ds) + length a = deletions (script_summary ds) + length b"
  using script_balance [of ds] by (auto simp: valid_script_def)

lemma valid_hello: "valid_script [(0, ''hello''), (1, '' world'')] ''hello'' ''hello world''"
  by (simp add: valid_script_def script_source_def script_target_def)

lemma cost_hello: "script_cost [(0, ''hello''), (1, '' world'')] = 6"
  by (simp add: script_cost_def script_summary_def count_diff_def)

lemma valid_same: "valid_script (if a = [] then [] else [(0, a)]) a a"
  by (simp add: valid_script_def script_source_def script_target_def)

lemma cost_same: "script_cost (if a = [] then [] else [(0, a)]) = 0"
  by (simp add: script_cost_def script_summary_def count_diff_def)

lemma shortest_same: "shortest_script (if a = [] then [] else [(0, a)]) a a"
  unfolding shortest_script_def by (simp only: valid_same cost_same) simp

lemma shortest_same_summary:
  assumes "shortest_script ds a a"
  shows "script_summary ds = \<lparr>insertions = 0, deletions = 0\<rparr>"
proof -
  have "script_cost ds \<le> script_cost (if a = [] then [] else [(0, a)])"
    using assms valid_same [of a] unfolding shortest_script_def by blast
  then have "script_cost ds = 0"
    by (simp only: cost_same)
  then show ?thesis
    by (simp add: script_cost_def)
qed

lemma shortest_hello_summary:
  assumes "shortest_script ds ''hello'' ''hello world''"
  shows "script_summary ds = \<lparr>insertions = 6, deletions = 0\<rparr>"
proof -
  have "script_cost ds \<le> script_cost [(0, ''hello''), (1, '' world'')]"
    using assms valid_hello unfolding shortest_script_def by blast
  then have "script_cost ds \<le> 6"
    by (simp only: cost_hello)
  then have c: "insertions (script_summary ds) + deletions (script_summary ds) \<le> 6"
    by (simp only: script_cost_def)
  have "valid_script ds ''hello'' ''hello world''"
    using assms by (simp add: shortest_script_def)
  from valid_script_balance [OF this]
  have b: "insertions (script_summary ds) = deletions (script_summary ds) + 6"
    by simp
  from b c show ?thesis
    by simp
qed

lemma shortest_hello: "shortest_script [(0, ''hello''), (1, '' world'')] ''hello'' ''hello world''"
  unfolding shortest_script_def
proof (intro conjI allI impI)
  show "valid_script [(0, ''hello''), (1, '' world'')] ''hello'' ''hello world''"
    by (rule valid_hello)
next
  fix ds' assume "valid_script ds' ''hello'' ''hello world''"
  from valid_script_balance [OF this]
  have "insertions (script_summary ds') = deletions (script_summary ds') + 6"
    by simp
  then have "6 \<le> script_cost ds'"
    by (simp add: script_cost_def)
  then show "script_cost [(0, ''hello''), (1, '' world'')] \<le> script_cost ds'"
    by (simp only: cost_hello)
qed

lemma calculateDiffStats_fst:
  "fst (calculateDiffStats lib a b)
     = script_summary (cleanupEfficiency lib (makeDiff lib a b \<lparr>timeout = 1, checkLines = True\<rparr>) 4)"
  by (simp add: calculateDiffStats_def script_summary_def Let_def)

lemma calculateDiffStats_snd:
  "snd (calculateDiffStats lib a b)
     = [Call_makeDiff a b \<lparr>timeout = 1, checkLines = True\<rparr>,
        Call_cleanupEfficiency (makeDiff lib a b \<lparr>timeout = 1, checkLines = True\<rparr>) 4]"
  by (simp add: calculateDiffStats_def Let_def)

lemma string_of_nat_digit: "n < 10 \<Longrightarrow> string_of_nat n = [digit_char n]"
  by (simp add: string_of_nat.simps)

lemma prefix_lib_hello:
  "cleanupEfficiency prefix_lib
     (makeDiff prefix_lib ''hello'' ''hello world'' \<lparr>timeout = 1, checkLines = True\<rparr>) 4
   = [(0, ''hello''), (1, '' world'')]"
  by (simp add: prefix_lib_def prefix_makeDiff_def)

lemma prefix_lib_same:
  "cleanupEfficiency prefix_lib
     (makeDiff prefix_lib ''same'' ''same'' \<lparr>timeout = 1, checkLines = True\<rparr>) 4
   = (if ''same'' = [] then [] else [(0, ''same'')])"
  by (simp add: prefix_lib_def prefix_makeDiff_def)

subsection \<open>The recomputation effect, branch by branch\<close>

lemma diffEffect_absent:
  "fileContent p = None \<or> bufferText p = None \<Longrightarrow>
   diffEffect lib p st = (st\<lparr>diffSummary := None\<rparr>, [])"
  by (auto simp: diffEffect_def split: option.splits)

lemma diffEffect_identical:
  "fileContent p = Some t \<Longrightarrow> bufferText p = Some t \<Longrightarrow>
   diffEffect lib p st =
     (st\<lparr>diffSummary := Some \<lparr>insertions = 0, deletions = 0\<rparr>,
         status := Some \<lparr>message = (if isMobile p then ''Identical to File.''
                                     else ''The File is identical to this Document.''),
                          mtype = Info\<rparr>\<rparr>, [])"
  by (simp add: diffEffect_def)

lemma handleReloadFileContent_calls:
  "snd (handleReloadFileContent p liveFileId st) = [Call_reloadFileContent liveFileId]"
  by (simp add: handleReloadFileContent_def Let_def)

lemma string_of_nat_12: "string_of_nat 12 = ''12''"
  by (simp add: string_of_nat.simps digit_char_def)

text \<open>
  Swapping the two texts: for edit scripts in the two directions, the counts are each
  other's mirror image exactly when the two scripts change the same number of characters.
  Whether the scripts of the diff library do so is a matter of the library.
\<close>

lemma swap_counts_iff_equal_cost:
  assumes "valid_script ds a b" and "valid_script ds' b a"
  shows "(insertions (script_summary ds) = deletions (script_summary ds')
          \<and> deletions (script_summary ds) = insertions (script_summary ds'))
         = (script_cost ds = script_cost ds')"
  using valid_script_balance [OF assms(1)] valid_script_balance [OF assms(2)]
  by (auto simp: script_cost_def)

text \<open>Reading a script backwards swaps its two texts and its two counts.\<close>

lemma invert_source: "script_source (invert_script ds) = script_target ds"
  by (induction ds) (auto simp: invert_script_def script_source_def script_target_def)

lemma invert_target: "script_target (invert_script ds) = script_source ds"
  by (induction ds) (auto simp: invert_script_def script_source_def script_target_def)

lemma invert_insertions:
  "insertions (script_summary (invert_script ds)) = deletions (script_summary ds)"
  unfolding script_summary_def count_diff_insertions count_diff_deletions
  by (induction ds) (auto simp: invert_script_def)

lemma invert_deletions:
  "deletions (script_summary (invert_script ds)) = insertions (script_summary ds)"
  unfolding script_summary_def count_diff_insertions count_diff_deletions
  by (induction ds) (auto simp: invert_script_def)

lemma invert_cost: "script_cost (invert_script ds) = script_cost ds"
  by (simp add: script_cost_def invert_insertions invert_deletions)

lemma invert_ops:
  "list_all (\<lambda>d. fst d = 1 \<or> fst d = 0 \<or> fst d = - 1) ds \<Longrightarrow>
   list_all (\<lambda>d. fst d = 1 \<or> fst d = 0 \<or> fst d = - 1) (invert_script ds)"
  by (induction ds) (auto simp: invert_script_def)

lemma invert_valid: "valid_script ds a b \<Longrightarrow> valid_script (invert_script ds) b a"
  by (simp add: valid_script_def invert_source invert_target invert_ops)

lemma shortest_cost_swap:
  assumes "shortest_script ds a b" and "shortest_script ds' b a"
  shows "script_cost ds = script_cost ds'"
proof -
  have v: "valid_script ds a b" and v': "valid_script ds' b a"
    using assms by (simp_all add: shortest_script_def)
  have "script_cost ds \<le> script_cost (invert_script ds')"
    using assms(1) invert_valid [OF v'] unfolding shortest_script_def by blast
  moreover have "script_cost ds' \<le> script_cost (invert_script ds)"
    using assms(2) invert_valid [OF v] unfolding shortest_script_def by blast
  ultimately show ?thesis
    by (simp add: invert_cost)
qed

lemma shortest_invert:
  assumes "shortest_script ds a b"
  shows "shortest_script (invert_script ds) b a"
  unfolding shortest_script_def
proof (intro conjI allI impI)
  show "valid_script (invert_script ds) b a"
    using assms by (simp add: shortest_script_def invert_valid)
next
  fix ds' assume "valid_script ds' b a"
  then have "valid_script (invert_script ds') a b"
    by (rule invert_valid)
  then have "script_cost ds \<le> script_cost (invert_script ds')"
    using assms unfolding shortest_script_def by blast
  then show "script_cost (invert_script ds) \<le> script_cost ds'"
    by (simp add: invert_cost)
qed

lemma prefix_lib_hello_back:
  "cleanupEfficiency prefix_lib
     (makeDiff prefix_lib ''hello world'' ''hello'' \<lparr>timeout = 1, checkLines = True\<rparr>) 4
   = invert_script [(0, ''hello''), (1, '' world'')]"
  by (simp add: prefix_lib_def prefix_makeDiff_def invert_script_def)

section \<open>The claims\<close>

subsection \<open>Reload while a load is in flight\<close>

text \<open>
  C1. The claim: while a load is in flight, reload sets the "already loading" status and
  starts no second read, so that two reloads in quick succession make one read call.
  The handler has no return after the "already loading" status. Evaluated on a render whose
  session is loading and has content, it sets that status and calls
  \<^verbatim>\<open>reloadFileContent\<close> all the same; a reload before the load started and one while it
  is in flight make two read calls; and on a session that is loading and has no content yet,
  the status that remains is "Reading file...".
\<close>

theorem C1_reload_while_loading_reads_again:
  "handleReloadFileContent
     (render (Some ''draft'') (Some (session (Some ''text'') None True)) True) None initial_state
   = (\<lparr>diffSummary = None,
       status = Some \<lparr>message = ''Already Loading file...'', mtype = Info\<rparr>\<rparr>,
      [Call_reloadFileContent None])
   \<and> snd (handleReloadFileContent
            (render (Some ''draft'') (Some (session (Some ''text'') None False)) True) None
            initial_state)
     @ snd (handleReloadFileContent
              (render (Some ''draft'') (Some (session (Some ''text'') None True)) True) None
              initial_state)
     = [Call_reloadFileContent None, Call_reloadFileContent None]
   \<and> status (fst (handleReloadFileContent
                    (render (Some ''draft'') (Some (session None None True)) True) None
                    initial_state))
     = Some \<lparr>message = ''Reading file...'', mtype = Info\<rparr>"
  by (simp add: handleReloadFileContent_def isLoadingFile_def fileHasContent_def fileContent_def
        render_def session_def initial_state_def)

subsection \<open>Recomputation with a side absent\<close>

text \<open>
  C2, as stated, fails: with no file content the effect clears the summary only. After a
  reload on a session without content the status is "Reading file..."; when the buffer
  text then changes, the effect runs and the status is still there.
\<close>

theorem C2_absent_side_counterexample:
  "\<not> (diffSummary (fst (diffEffect prefix_lib
          (render (Some ''draft 2'') (Some (session None None False)) True)
          (fst (handleReloadFileContent
                  (render (Some ''draft'') (Some (session None None False)) True) None
                  initial_state)))) = None
      \<and> status (fst (diffEffect prefix_lib
          (render (Some ''draft 2'') (Some (session None None False)) True)
          (fst (handleReloadFileContent
                  (render (Some ''draft'') (Some (session None None False)) True) None
                  initial_state)))) = None)"
  by (simp add: diffEffect_def handleReloadFileContent_def isLoadingFile_def fileHasContent_def
        fileContent_def render_def session_def initial_state_def)

text \<open>
  C2, amended: when the file content or the buffer text is absent, the recomputation sets
  the diff summary to null, leaves the status as it was, and calls nothing.
\<close>

theorem C2_absent_side_keeps_status:
  assumes "fileContent p = None \<or> bufferText p = None"
  shows "diffSummary (fst (diffEffect lib p st)) = None
       \<and> status (fst (diffEffect lib p st)) = status st
       \<and> snd (diffEffect lib p st) = []"
  using diffEffect_absent [OF assms] by simp

text \<open>The amended C2 on an unpaired render that still shows an earlier diff status.\<close>

theorem C2_absent_side_keeps_status_witness:
  "diffEffect prefix_lib (render (Some ''draft'') None False)
     \<lparr>diffSummary = Some \<lparr>insertions = 1, deletions = 0\<rparr>,
      status = Some \<lparr>message = ''Document has 1 insertions.'', mtype = Changes\<rparr>\<rparr>
   = (\<lparr>diffSummary = None,
       status = Some \<lparr>message = ''Document has 1 insertions.'', mtype = Changes\<rparr>\<rparr>, [])"
proof -
  have h: "fileContent (render (Some ''draft'') None False) = None
         \<or> bufferText (render (Some ''draft'') None False) = None"
    by (simp add: fileContent_def render_def)
  show ?thesis
    using C2_absent_side_keeps_status [OF h, of prefix_lib
            "\<lparr>diffSummary = Some \<lparr>insertions = 1, deletions = 0\<rparr>,
              status = Some \<lparr>message = ''Document has 1 insertions.'', mtype = Changes\<rparr>\<rparr>"]
    by (cases "diffEffect prefix_lib (render (Some ''draft'') None False)
                 \<lparr>diffSummary = Some \<lparr>insertions = 1, deletions = 0\<rparr>,
                  status = Some \<lparr>message = ''Document has 1 insertions.'', mtype = Changes\<rparr>\<rparr>")
       (auto simp: hook_state.equality)
qed

subsection \<open>The error override\<close>

text \<open>
  C3, as stated, fails: the error effect runs only when the error text changes. A session
  with content \<open>a\<close> and error "Read failed" is mounted under the buffer \<open>ab\<close>, and the
  status shows the error. The buffer then becomes \<open>a\<close>; the session still reports the same
  error, only the diff effect runs, and the status becomes the "identical" narration.
\<close>

theorem C3_error_survives_counterexample:
  "fileErrorText (render (Some ''a'') (Some (session (Some ''a'') (Some ''Read failed'') False)) True)
     = Some ''Read failed''
   \<and> status (fst (commitEffects prefix_lib
        (Some (render (Some ''ab'') (Some (session (Some ''a'') (Some ''Read failed'') False)) True))
        (render (Some ''a'') (Some (session (Some ''a'') (Some ''Read failed'') False)) True)
        (fst (commitEffects prefix_lib None
               (render (Some ''ab'') (Some (session (Some ''a'') (Some ''Read failed'') False)) True)
               initial_state))))
     = Some \<lparr>message = ''The File is identical to this Document.'', mtype = Info\<rparr>"
  by (simp add: commitEffects_def diffEffect_def errorEffect_def diffDeps_def fileErrorText_def
        fileContent_def calculateDiffStats_def prefix_lib_def prefix_makeDiff_def count_diff_def
        render_def session_def initial_state_def)

text \<open>
  C3, amended: on mount, and whenever the error text of the session changes, a nonempty
  error text becomes the status with kind error, whatever the diff effect set in the same
  update (the error effect runs after it). The error does not stay the visible narration:
  when a later update leaves the error text as it is and changes the buffer text, the file
  content or \<^verbatim>\<open>isMobile\<close>, with both texts present, the status becomes the one the
  diff effect derives, of kind info or changes. With a text absent and the error text
  unchanged, the status stays as it was.
\<close>

theorem C3_error_override_on_change:
  "(fileErrorText p = Some e \<and> e \<noteq> []
      \<and> (prev = None \<or> (\<exists>q. prev = Some q \<and> fileErrorText q \<noteq> Some e))
     \<longrightarrow> status (fst (commitEffects lib prev p st)) = Some \<lparr>message = e, mtype = Error\<rparr>)
   \<and> (prev = Some q \<and> fileErrorText q = fileErrorText p \<and> diffDeps q \<noteq> diffDeps p
      \<and> fileContent p \<noteq> None \<and> bufferText p \<noteq> None
     \<longrightarrow> status (fst (commitEffects lib prev p st)) = status (fst (diffEffect lib p st))
         \<and> (map_option mtype (status (fst (commitEffects lib prev p st))) = Some Info
            \<or> map_option mtype (status (fst (commitEffects lib prev p st))) = Some Changes))
   \<and> (prev = Some q \<and> fileErrorText q = fileErrorText p
      \<and> (fileContent p = None \<or> bufferText p = None)
     \<longrightarrow> status (fst (commitEffects lib prev p st)) = status st)"
proof (intro conjI impI)
  assume "fileErrorText p = Some e \<and> e \<noteq> []
      \<and> (prev = None \<or> (\<exists>q. prev = Some q \<and> fileErrorText q \<noteq> Some e))"
  then show "status (fst (commitEffects lib prev p st)) = Some \<lparr>message = e, mtype = Error\<rparr>"
    by (auto simp: commitEffects_def errorEffect_def Let_def split: prod.splits option.splits)
next
  assume a: "prev = Some q \<and> fileErrorText q = fileErrorText p \<and> diffDeps q \<noteq> diffDeps p
      \<and> fileContent p \<noteq> None \<and> bufferText p \<noteq> None"
  then have c: "commitEffects lib prev p st = diffEffect lib p st"
    by (simp add: commitEffects_def Let_def split: prod.splits)
  show "status (fst (commitEffects lib prev p st)) = status (fst (diffEffect lib p st))"
    by (simp only: c)
  from a obtain fc bt where "fileContent p = Some fc" "bufferText p = Some bt"
    by auto
  then show "map_option mtype (status (fst (commitEffects lib prev p st))) = Some Info
            \<or> map_option mtype (status (fst (commitEffects lib prev p st))) = Some Changes"
    unfolding c
    by (cases "calculateDiffStats lib fc bt") (simp add: diffEffect_def)
next
  assume b: "prev = Some q \<and> fileErrorText q = fileErrorText p
      \<and> (fileContent p = None \<or> bufferText p = None)"
  then have "diffEffect lib p st = (st\<lparr>diffSummary := None\<rparr>, [])"
    by (simp add: diffEffect_absent)
  with b show "status (fst (commitEffects lib prev p st)) = status st"
    by (simp add: commitEffects_def Let_def)
qed

text \<open>
  The amended C3 on an update that changes both the buffer text and the error text, and on
  a later one that changes the buffer text only.
\<close>

theorem C3_error_override_on_change_witness:
  "status (fst (commitEffects prefix_lib
      (Some (render (Some ''ab'') (Some (session (Some ''a'') None True)) True))
      (render (Some ''abc'') (Some (session (Some ''a'') (Some ''Read failed'') False)) True)
      \<lparr>diffSummary = Some \<lparr>insertions = 1, deletions = 0\<rparr>,
       status = Some \<lparr>message = ''Document has 1 insertions.'', mtype = Changes\<rparr>\<rparr>))
     = Some \<lparr>message = ''Read failed'', mtype = Error\<rparr>
   \<and> status (fst (commitEffects prefix_lib
      (Some (render (Some ''abc'') (Some (session (Some ''a'') (Some ''Read failed'') False)) True))
      (render (Some ''abcd'') (Some (session (Some ''a'') (Some ''Read failed'') False)) True)
      \<lparr>diffSummary = Some \<lparr>insertions = 2, deletions = 0\<rparr>,
       status = Some \<lparr>message = ''Read failed'', mtype = Error\<rparr>\<rparr>))
     = Some \<lparr>message = ''Document has 3 insertions.'', mtype = Changes\<rparr>
   \<and> status (fst (commitEffects prefix_lib
      (Some (render (Some ''ab'') (Some (session None (Some ''Read failed'') False)) True))
      (render (Some ''abc'') (Some (session None (Some ''Read failed'') False)) True)
      \<lparr>diffSummary = None,
       status = Some \<lparr>message = ''Read failed'', mtype = Error\<rparr>\<rparr>))
     = Some \<lparr>message = ''Read failed'', mtype = Error\<rparr>"
proof -
  let ?u = "render (Some ''ab'') (Some (session None (Some ''Read failed'') False)) True"
  let ?v = "render (Some ''abc'') (Some (session None (Some ''Read failed'') False)) True"
  have h3: "Some ?u = Some ?u \<and> fileErrorText ?u = fileErrorText ?v
          \<and> (fileContent ?v = None \<or> bufferText ?v = None)"
    by (simp add: fileErrorText_def fileContent_def render_def session_def)
  let ?q = "render (Some ''ab'') (Some (session (Some ''a'') None True)) True"
  let ?p = "render (Some ''abc'') (Some (session (Some ''a'') (Some ''Read failed'') False)) True"
  let ?r = "render (Some ''abcd'') (Some (session (Some ''a'') (Some ''Read failed'') False)) True"
  let ?st = "\<lparr>diffSummary = Some \<lparr>insertions = 2, deletions = 0\<rparr>,
              status = Some \<lparr>message = ''Read failed'', mtype = Error\<rparr>\<rparr>"
  have h1: "fileErrorText ?p = Some ''Read failed'' \<and> ''Read failed'' \<noteq> []
          \<and> (Some ?q = None \<or> (\<exists>q. Some ?q = Some q \<and> fileErrorText q \<noteq> Some ''Read failed''))"
    by (simp add: fileErrorText_def render_def session_def)
  have h2: "Some ?p = Some ?p \<and> fileErrorText ?p = fileErrorText ?r \<and> diffDeps ?p \<noteq> diffDeps ?r
          \<and> fileContent ?r \<noteq> None \<and> bufferText ?r \<noteq> None"
    by (simp add: fileErrorText_def fileContent_def diffDeps_def render_def session_def)
  have d: "status (fst (diffEffect prefix_lib ?r ?st))
             = Some \<lparr>message = ''Document has 3 insertions.'', mtype = Changes\<rparr>"
    by (simp add: diffEffect_def fileContent_def calculateDiffStats_def prefix_lib_def
          prefix_makeDiff_def count_diff_def render_def session_def string_of_nat_digit
          digit_char_def)
  show ?thesis
    using C3_error_override_on_change [where p = ?p and e = "''Read failed''" and prev = "Some ?q"
            and lib = prefix_lib and st =
            "\<lparr>diffSummary = Some \<lparr>insertions = 1, deletions = 0\<rparr>,
              status = Some \<lparr>message = ''Document has 1 insertions.'', mtype = Changes\<rparr>\<rparr>"]
          C3_error_override_on_change [where p = ?r and prev = "Some ?p" and q = ?p
            and lib = prefix_lib and st = ?st]
          C3_error_override_on_change [where p = ?v and prev = "Some ?u" and q = ?u
            and lib = prefix_lib and st =
            "\<lparr>diffSummary = None,
              status = Some \<lparr>message = ''Read failed'', mtype = Error\<rparr>\<rparr>"]
          h1 h2 h3 d
    by simp
qed

subsection \<open>Identical texts\<close>

text \<open>
  C4. When file content and buffer text are present and equal, the recomputation sets the
  summary to zero insertions and zero deletions and an info status saying the two are
  identical, and it makes no call: neither \<^verbatim>\<open>calculateDiffStats\<close> nor the diff library.
\<close>

theorem C4_identical_short_circuit:
  assumes "fileContent p = Some t" and "bufferText p = Some t"
  shows "diffEffect lib p st =
           (st\<lparr>diffSummary := Some \<lparr>insertions = 0, deletions = 0\<rparr>,
               status := Some \<lparr>message = (if isMobile p then ''Identical to File.''
                                           else ''The File is identical to this Document.''),
                                mtype = Info\<rparr>\<rparr>,
            [])"
  using assms by (rule diffEffect_identical)

text \<open>C4 on content and buffer \<open>hello\<close>.\<close>

theorem C4_identical_short_circuit_witness:
  "diffEffect prefix_lib
     (render (Some ''hello'') (Some (session (Some ''hello'') None False)) True) initial_state
   = (\<lparr>diffSummary = Some \<lparr>insertions = 0, deletions = 0\<rparr>,
       status = Some \<lparr>message = ''The File is identical to this Document.'', mtype = Info\<rparr>\<rparr>,
      [])"
proof -
  have h1: "fileContent (render (Some ''hello'') (Some (session (Some ''hello'') None False)) True)
              = Some ''hello''"
    by (simp add: fileContent_def render_def session_def)
  have h2: "bufferText (render (Some ''hello'') (Some (session (Some ''hello'') None False)) True)
              = Some ''hello''"
    by (simp add: render_def)
  show ?thesis
    using C4_identical_short_circuit [OF h1 h2, of prefix_lib initial_state]
    by (simp add: render_def initial_state_def)
qed

subsection \<open>The status of a difference\<close>

text \<open>
  C5. For present and unequal texts the summary is what \<^verbatim>\<open>calculateDiffStats\<close> returns,
  and the status follows from it: insertions and deletions both nonzero give
  "Document has N insertions and M deletions." of kind changes; insertions only give
  "Document has N insertions."; deletions only give "Document has N deletions."; both zero
  give "No changes." of kind info.
\<close>

theorem C5_status_priority:
  assumes "fileContent p = Some fc" and "bufferText p = Some bt" and "fc \<noteq> bt"
    and "calculateDiffStats lib fc bt = (summary, evs)"
  shows "diffSummary (fst (diffEffect lib p st)) = Some summary
       \<and> (insertions summary \<noteq> 0 \<and> deletions summary \<noteq> 0 \<longrightarrow>
            status (fst (diffEffect lib p st)) =
              Some \<lparr>message = ''Document has '' @ string_of_nat (insertions summary)
                                @ '' insertions and '' @ string_of_nat (deletions summary)
                                @ '' deletions.'',
                    mtype = Changes\<rparr>)
       \<and> (insertions summary \<noteq> 0 \<and> deletions summary = 0 \<longrightarrow>
            status (fst (diffEffect lib p st)) =
              Some \<lparr>message = ''Document has '' @ string_of_nat (insertions summary)
                                @ '' insertions.'',
                    mtype = Changes\<rparr>)
       \<and> (insertions summary = 0 \<and> deletions summary \<noteq> 0 \<longrightarrow>
            status (fst (diffEffect lib p st)) =
              Some \<lparr>message = ''Document has '' @ string_of_nat (deletions summary)
                                @ '' deletions.'',
                    mtype = Changes\<rparr>)
       \<and> (insertions summary = 0 \<and> deletions summary = 0 \<longrightarrow>
            status (fst (diffEffect lib p st)) = Some \<lparr>message = ''No changes.'', mtype = Info\<rparr>)"
  using assms by (simp add: diffEffect_def)

text \<open>
  C5 on one input for each of the four cases; the last needs a library that reports no
  change for unequal texts.
\<close>

theorem C5_status_priority_witness:
  "status (fst (diffEffect prefix_lib
      (render (Some ''hexlo world!!!'') (Some (session (Some ''hello'') None False)) True)
      initial_state))
     = Some \<lparr>message = ''Document has 12 insertions and 3 deletions.'', mtype = Changes\<rparr>
   \<and> status (fst (diffEffect prefix_lib
      (render (Some ''hello world'') (Some (session (Some ''hello'') None False)) True)
      initial_state))
     = Some \<lparr>message = ''Document has 6 insertions.'', mtype = Changes\<rparr>
   \<and> status (fst (diffEffect prefix_lib
      (render (Some ''he'') (Some (session (Some ''hello'') None False)) True)
      initial_state))
     = Some \<lparr>message = ''Document has 3 deletions.'', mtype = Changes\<rparr>
   \<and> status (fst (diffEffect \<lparr>makeDiff = (\<lambda>a b opts. []), cleanupEfficiency = (\<lambda>ds editCost. ds)\<rparr>
      (render (Some ''he'') (Some (session (Some ''hello'') None False)) True)
      initial_state))
     = Some \<lparr>message = ''No changes.'', mtype = Info\<rparr>"
proof -
  let ?fd = "Some (session (Some ''hello'') None False)"
  have fc: "\<And>bt. fileContent (render bt ?fd True) = Some ''hello''"
    by (simp add: fileContent_def render_def session_def)
  have bt: "\<And>bt. bufferText (render bt ?fd True) = bt"
    by (simp add: render_def)
  have c1: "calculateDiffStats prefix_lib ''hello'' ''hexlo world!!!''
              = (\<lparr>insertions = 12, deletions = 3\<rparr>,
                 snd (calculateDiffStats prefix_lib ''hello'' ''hexlo world!!!''))"
    by (simp add: calculateDiffStats_def prefix_lib_def prefix_makeDiff_def count_diff_def)
  have c2: "calculateDiffStats prefix_lib ''hello'' ''hello world''
              = (\<lparr>insertions = 6, deletions = 0\<rparr>,
                 snd (calculateDiffStats prefix_lib ''hello'' ''hello world''))"
    by (simp add: calculateDiffStats_def prefix_lib_def prefix_makeDiff_def count_diff_def)
  have c3: "calculateDiffStats prefix_lib ''hello'' ''he''
              = (\<lparr>insertions = 0, deletions = 3\<rparr>,
                 snd (calculateDiffStats prefix_lib ''hello'' ''he''))"
    by (simp add: calculateDiffStats_def prefix_lib_def prefix_makeDiff_def count_diff_def)
  let ?nolib = "\<lparr>makeDiff = (\<lambda>a b opts. []), cleanupEfficiency = (\<lambda>ds editCost. ds)\<rparr>"
  have c4: "calculateDiffStats ?nolib ''hello'' ''he''
              = (\<lparr>insertions = 0, deletions = 0\<rparr>, snd (calculateDiffStats ?nolib ''hello'' ''he''))"
    by (simp add: calculateDiffStats_def)
  have n1: "''hello'' \<noteq> ''hexlo world!!!''" by simp
  have n2: "''hello'' \<noteq> ''hello world''" by simp
  have n3: "''hello'' \<noteq> ''he''" by simp
  show ?thesis
    using C5_status_priority [OF fc bt n1 c1, of initial_state]
          C5_status_priority [OF fc bt n2 c2, of initial_state]
          C5_status_priority [OF fc bt n3 c3, of initial_state]
          C5_status_priority [OF fc bt n3 c4, of initial_state]
    by (simp add: string_of_nat_12 string_of_nat_digit digit_char_def)
qed

subsection \<open>The scenario \<open>hello\<close> against \<open>hello world\<close>\<close>

text \<open>
  C6. With file content \<open>hello\<close> and buffer text \<open>hello world\<close> the recomputation gives
  the summary of 6 insertions and 0 deletions and the status "Document has 6 insertions."
  of kind changes. The edit script comes from the diff library; the theorem holds for
  every library that returns a shortest edit script for these two texts.
\<close>

theorem C6_hello_world_scenario:
  assumes "shortest_script
             (cleanupEfficiency lib
                (makeDiff lib ''hello'' ''hello world'' \<lparr>timeout = 1, checkLines = True\<rparr>) 4)
             ''hello'' ''hello world''"
    and "fileContent p = Some ''hello''"
    and "bufferText p = Some ''hello world''"
  shows "fst (diffEffect lib p st) =
           st\<lparr>diffSummary := Some \<lparr>insertions = 6, deletions = 0\<rparr>,
              status := Some \<lparr>message = ''Document has 6 insertions.'', mtype = Changes\<rparr>\<rparr>"
proof -
  have "fst (calculateDiffStats lib ''hello'' ''hello world'') = \<lparr>insertions = 6, deletions = 0\<rparr>"
    using shortest_hello_summary [OF assms(1)] by (simp only: calculateDiffStats_fst)
  then obtain evs where
    "calculateDiffStats lib ''hello'' ''hello world'' = (\<lparr>insertions = 6, deletions = 0\<rparr>, evs)"
    by (cases "calculateDiffStats lib ''hello'' ''hello world''") simp
  then show ?thesis
    using assms(2,3)
    by (simp add: diffEffect_def string_of_nat_digit digit_char_def)
qed

text \<open>C6 with the prefix library.\<close>

theorem C6_hello_world_scenario_witness:
  "fst (diffEffect prefix_lib
          (render (Some ''hello world'') (Some (session (Some ''hello'') None False)) True)
          initial_state)
   = \<lparr>diffSummary = Some \<lparr>insertions = 6, deletions = 0\<rparr>,
      status = Some \<lparr>message = ''Document has 6 insertions.'', mtype = Changes\<rparr>\<rparr>"
proof -
  have h: "shortest_script
             (cleanupEfficiency prefix_lib
                (makeDiff prefix_lib ''hello'' ''hello world'' \<lparr>timeout = 1, checkLines = True\<rparr>) 4)
             ''hello'' ''hello world''"
    by (simp only: prefix_lib_hello shortest_hello)
  show ?thesis
    using C6_hello_world_scenario [OF h,
            of "render (Some ''hello world'') (Some (session (Some ''hello'') None False)) True"
               initial_state]
    by (simp add: fileContent_def render_def session_def initial_state_def)
qed

subsection \<open>Swapping the two texts\<close>

text \<open>
  C7, as stated, fails: the counts are those of the script that the library returns, and
  the library need not answer the two directions alike. For \<open>abbb\<close> and \<open>ba\<close> both
  scripts are valid edit scripts, the summary is 2 insertions and 4 deletions in one
  direction and 3 insertions and 1 deletion in the other.
\<close>

theorem C7_swap_counterexample:
  "valid_script
     (cleanupEfficiency swap_lib
        (makeDiff swap_lib ''abbb'' ''ba'' \<lparr>timeout = 1, checkLines = True\<rparr>) 4) ''abbb'' ''ba''
   \<and> valid_script
     (cleanupEfficiency swap_lib
        (makeDiff swap_lib ''ba'' ''abbb'' \<lparr>timeout = 1, checkLines = True\<rparr>) 4) ''ba'' ''abbb''
   \<and> fst (calculateDiffStats swap_lib ''abbb'' ''ba'') = \<lparr>insertions = 2, deletions = 4\<rparr>
   \<and> fst (calculateDiffStats swap_lib ''ba'' ''abbb'') = \<lparr>insertions = 3, deletions = 1\<rparr>
   \<and> insertions (fst (calculateDiffStats swap_lib ''abbb'' ''ba''))
       \<noteq> deletions (fst (calculateDiffStats swap_lib ''ba'' ''abbb''))"
  by (simp add: calculateDiffStats_def swap_lib_def swap_makeDiff_def count_diff_def
        valid_script_def script_source_def script_target_def)

text \<open>
  C7, amended: for all texts \<open>a\<close> and \<open>b\<close> for which the library returns a shortest edit
  script in both directions, the insertions of \<^verbatim>\<open>calculateDiffStats\<close> from \<open>a\<close> to
  \<open>b\<close> are the deletions from \<open>b\<close> to \<open>a\<close>, and the deletions are the insertions.
\<close>

theorem C7_swap_symmetry_of_shortest_scripts:
  assumes "shortest_script
             (cleanupEfficiency lib (makeDiff lib a b \<lparr>timeout = 1, checkLines = True\<rparr>) 4) a b"
    and "shortest_script
             (cleanupEfficiency lib (makeDiff lib b a \<lparr>timeout = 1, checkLines = True\<rparr>) 4) b a"
  shows "insertions (fst (calculateDiffStats lib a b)) = deletions (fst (calculateDiffStats lib b a))
       \<and> deletions (fst (calculateDiffStats lib a b)) = insertions (fst (calculateDiffStats lib b a))"
proof -
  have v: "valid_script
             (cleanupEfficiency lib (makeDiff lib a b \<lparr>timeout = 1, checkLines = True\<rparr>) 4) a b"
    and v': "valid_script
             (cleanupEfficiency lib (makeDiff lib b a \<lparr>timeout = 1, checkLines = True\<rparr>) 4) b a"
    using assms by (simp_all add: shortest_script_def)
  show ?thesis
    unfolding calculateDiffStats_fst
    using swap_counts_iff_equal_cost [OF v v'] shortest_cost_swap [OF assms]
    by blast
qed

text \<open>The amended C7 with the prefix library on \<open>hello\<close> and \<open>hello world\<close>.\<close>

theorem C7_swap_symmetry_of_shortest_scripts_witness:
  "fst (calculateDiffStats prefix_lib ''hello'' ''hello world'') = \<lparr>insertions = 6, deletions = 0\<rparr>
   \<and> fst (calculateDiffStats prefix_lib ''hello world'' ''hello'') = \<lparr>insertions = 0, deletions = 6\<rparr>"
proof -
  have h1: "shortest_script
             (cleanupEfficiency prefix_lib
                (makeDiff prefix_lib ''hello'' ''hello world'' \<lparr>timeout = 1, checkLines = True\<rparr>) 4)
             ''hello'' ''hello world''"
    by (simp only: prefix_lib_hello shortest_hello)
  have h2: "shortest_script
             (cleanupEfficiency prefix_lib
                (makeDiff prefix_lib ''hello world'' ''hello'' \<lparr>timeout = 1, checkLines = True\<rparr>) 4)
             ''hello world'' ''hello''"
    by (simp only: prefix_lib_hello_back shortest_invert [OF shortest_hello])
  have f: "fst (calculateDiffStats prefix_lib ''hello'' ''hello world'')
             = \<lparr>insertions = 6, deletions = 0\<rparr>"
    using shortest_hello_summary [OF h1] by (simp only: calculateDiffStats_fst)
  show ?thesis
    using C7_swap_symmetry_of_shortest_scripts [OF h1 h2] f
    by (cases "fst (calculateDiffStats prefix_lib ''hello world'' ''hello'')") simp
qed

subsection \<open>The summarizer on one text twice\<close>

text \<open>
  C8, as stated, fails in its second half: \<^verbatim>\<open>calculateDiffStats\<close> has no fast path of
  its own. On two empty texts it returns zero counts, and it has called the library.
\<close>

theorem C8_same_text_invokes_diff_counterexample:
  "\<not> (fst (calculateDiffStats prefix_lib '''' '''') = \<lparr>insertions = 0, deletions = 0\<rparr>
      \<and> snd (calculateDiffStats prefix_lib '''' '''') = [])"
  by (simp add: calculateDiffStats_snd)

text \<open>
  C8, amended: for every text \<open>a\<close>, the empty one included, \<^verbatim>\<open>calculateDiffStats\<close> on
  \<open>a\<close> and \<open>a\<close> returns zero insertions and zero deletions (for a library that returns a
  shortest edit script there), and it calls \<^verbatim>\<open>makeDiff\<close> and
  \<^verbatim>\<open>cleanupEfficiency\<close> once each to do so. The fast path is in the recomputation
  effect, which for identical texts sets the zero summary and calls nothing.
\<close>

theorem C8_same_text_summary:
  assumes "shortest_script
             (cleanupEfficiency lib (makeDiff lib a a \<lparr>timeout = 1, checkLines = True\<rparr>) 4) a a"
  shows "calculateDiffStats lib a a =
           (\<lparr>insertions = 0, deletions = 0\<rparr>,
            [Call_makeDiff a a \<lparr>timeout = 1, checkLines = True\<rparr>,
             Call_cleanupEfficiency (makeDiff lib a a \<lparr>timeout = 1, checkLines = True\<rparr>) 4])
       \<and> (fileContent p = Some a \<and> bufferText p = Some a \<longrightarrow>
            diffSummary (fst (diffEffect lib p st)) = Some \<lparr>insertions = 0, deletions = 0\<rparr>
            \<and> snd (diffEffect lib p st) = [])"
proof -
  have "fst (calculateDiffStats lib a a) = \<lparr>insertions = 0, deletions = 0\<rparr>"
    using shortest_same_summary [OF assms] by (simp only: calculateDiffStats_fst)
  then have "calculateDiffStats lib a a =
           (\<lparr>insertions = 0, deletions = 0\<rparr>,
            [Call_makeDiff a a \<lparr>timeout = 1, checkLines = True\<rparr>,
             Call_cleanupEfficiency (makeDiff lib a a \<lparr>timeout = 1, checkLines = True\<rparr>) 4])"
    using calculateDiffStats_snd [of lib a a]
    by (cases "calculateDiffStats lib a a") simp
  then show ?thesis
    by (simp add: diffEffect_identical)
qed

text \<open>The amended C8 with the prefix library on the text \<open>same\<close>.\<close>

theorem C8_same_text_summary_witness:
  "calculateDiffStats prefix_lib ''same'' ''same'' =
     (\<lparr>insertions = 0, deletions = 0\<rparr>,
      [Call_makeDiff ''same'' ''same'' \<lparr>timeout = 1, checkLines = True\<rparr>,
       Call_cleanupEfficiency [(0, ''same'')] 4])
   \<and> diffEffect prefix_lib
       (render (Some ''same'') (Some (session (Some ''same'') None False)) True) initial_state
     = (\<lparr>diffSummary = Some \<lparr>insertions = 0, deletions = 0\<rparr>,
         status = Some \<lparr>message = ''The File is identical to this Document.'', mtype = Info\<rparr>\<rparr>,
        [])"
proof -
  have h: "shortest_script
             (cleanupEfficiency prefix_lib
                (makeDiff prefix_lib ''same'' ''same'' \<lparr>timeout = 1, checkLines = True\<rparr>) 4)
             ''same'' ''same''"
    by (simp only: prefix_lib_same shortest_same)
  have m: "makeDiff prefix_lib ''same'' ''same'' \<lparr>timeout = 1, checkLines = True\<rparr> = [(0, ''same'')]"
    by (simp add: prefix_lib_def prefix_makeDiff_def)
  have "calculateDiffStats prefix_lib ''same'' ''same'' =
     (\<lparr>insertions = 0, deletions = 0\<rparr>,
      [Call_makeDiff ''same'' ''same'' \<lparr>timeout = 1, checkLines = True\<rparr>,
       Call_cleanupEfficiency [(0, ''same'')] 4])"
    using C8_same_text_summary [OF h] by (simp only: m)
  then show ?thesis
    by (simp add: diffEffect_def fileContent_def render_def session_def initial_state_def)
qed

subsection \<open>Reload on window focus\<close>

text \<open>
  C9. When the window becomes focused, the subscribed callback calls reload (with no
  identifier, that is on the active one) if and only if the pairing is valid and file
  content has been loaded; with an invalid pairing it does nothing, and neither does it
  when the window loses focus.
\<close>

theorem C9_focus_reload_iff:
  "(Call_reloadFileContent None \<in> set (snd (focusCallback p True st)))
     = (isPairingValid p \<and> fileContent p \<noteq> None)
   \<and> (\<not> isPairingValid p \<longrightarrow> focusCallback p focused st = (st, []))
   \<and> focusCallback p False st = (st, [])"
  by (simp add: focusCallback_def shallUpdateOnRefocus_def fileHasContent_def
        handleReloadFileContent_calls)

text \<open>C9 on a render with content, once with an invalid and once with a valid pairing.\<close>

theorem C9_focus_reload_iff_witness:
  "focusCallback (render (Some ''draft'') (Some (session (Some ''text'') None False)) False) True
     initial_state = (initial_state, [])
   \<and> snd (focusCallback (render (Some ''draft'') (Some (session (Some ''text'') None False)) True)
            True initial_state) = [Call_reloadFileContent None]"
proof -
  let ?p = "render (Some ''draft'') (Some (session (Some ''text'') None False)) False"
  have h: "\<not> isPairingValid ?p"
    by (simp add: render_def)
  have "focusCallback ?p True initial_state = (initial_state, [])"
    using C9_focus_reload_iff [of ?p initial_state True] h by simp
  then show ?thesis
    by (simp add: focusCallback_def shallUpdateOnRefocus_def fileHasContent_def fileContent_def
          handleReloadFileContent_def isLoadingFile_def render_def session_def)
qed

subsection \<open>The text of a pairing error\<close>

text \<open>
  C10. When pairing throws a value whose \<^verbatim>\<open>message\<close> is truthy, or a string, the error
  status carries the string conversion of the thrown value itself, not of its
  \<^verbatim>\<open>message\<close>; the text "Unknown error" is the fallback for the remaining case only,
  a falsy \<^verbatim>\<open>message\<close> on a value that is not a string.
\<close>

theorem C10_pairing_error_text:
  assumes "thrown_value oc = Some e"
  shows "(js_truthy (js_message e) \<or> js_typeof e = ''string'' \<longrightarrow>
            status (fst (handlePairNewFSFHandle p oc st)) =
              Some \<lparr>message = ''Error pairing the file: '' @ js_to_string e, mtype = Error\<rparr>)
       \<and> (\<not> js_truthy (js_message e) \<and> js_typeof e \<noteq> ''string'' \<longrightarrow>
            status (fst (handlePairNewFSFHandle p oc st)) =
              Some \<lparr>message = ''Error pairing the file: Unknown error'', mtype = Error\<rparr>)"
  using assms
  by (cases oc)
     (auto simp: thrown_value_def pairingErrorStatus_def pairingErrorDetail_def
           split: prod.splits)

text \<open>
  C10 on an \<^verbatim>\<open>Error\<close> object with message \<open>boom\<close>, whose status reads
  "Error: boom" and not "boom", and on an object without a message.
\<close>

theorem C10_pairing_error_text_witness:
  "status (fst (handlePairNewFSFHandle
      (render (Some ''draft'') None False)
      (CreateThrows (JSObject (JSString ''boom'') ''Error: boom'')) initial_state))
     = Some \<lparr>message = ''Error pairing the file: Error: boom'', mtype = Error\<rparr>
   \<and> status (fst (handlePairNewFSFHandle
      (render (Some ''draft'') None False)
      (CreateThrows (JSObject JSUndefined ''[object Object]'')) initial_state))
     = Some \<lparr>message = ''Error pairing the file: Unknown error'', mtype = Error\<rparr>"
proof -
  have h1: "thrown_value (CreateThrows (JSObject (JSString ''boom'') ''Error: boom''))
              = Some (JSObject (JSString ''boom'') ''Error: boom'')"
    by (simp add: thrown_value_def)
  have h2: "thrown_value (CreateThrows (JSObject JSUndefined ''[object Object]''))
              = Some (JSObject JSUndefined ''[object Object]'')"
    by (simp add: thrown_value_def)
  show ?thesis
    using C10_pairing_error_text [OF h1, of "render (Some ''draft'') None False" initial_state]
          C10_pairing_error_text [OF h2, of "render (Some ''draft'') None False" initial_state]
    by simp
qed

end
